theory Spec2Isabelle
  imports Complex_Main "HOL-Library.Sublist" "HOL-Library.Word"
begin

unbundle bit_operations_syntax

section \<open>The carbon assistant request handler (carbon-main-agent.py)\<close>

text \<open>
  The handler is sequential Python glue around four managed services (the calculation
  Lambda, the Bedrock model, the SQS queue, the DynamoDB table). The embedding keeps the
  control flow of the source line by line. Every function returns its result together
  with the list of effects it performed, in order; a raised exception is the \<open>Inl\<close>
  branch of a sum. What the services and the Python runtime answer is read from an
  environment record, so that every theorem holds for every behaviour of the services.
\<close>

subsection \<open>Python values\<close>

text \<open>
  A Python \<open>float\<close> as \<open>json.loads\<close> produces it: a finite value, or one of the
  non-standard literals \<open>Infinity\<close>, \<open>-Infinity\<close>, \<open>NaN\<close> that the parser accepts.
  The handler only ever tests a float for truth (\<open>x != 0.0\<close>).
\<close>

datatype pyfloat = Finite rat | PosInf | NegInf | NaN

text \<open>
  The values \<open>json.loads\<close> returns. \<open>JObj kvs\<close> is the \<open>dict\<close> whose lookup is
  \<open>map_of kvs\<close>. A \<open>str\<close> is a \<open>string\<close>.
\<close>

datatype json =
    JNull
  | JBool bool
  | JInt int
  | JFloat pyfloat
  | JStr string
  | JArr "json list"
  | JObj "(string \<times> json) list"

text \<open>
  An exception that is an instance of \<open>Exception\<close>: its class name and
  its \<open>str(e)\<close>. The handler reads nothing else of an exception.
\<close>

datatype exn = Exn (exn_class: string) (exn_str: string)

text \<open>\<open>type(v).__name__\<close>, as Python's error messages print it.\<close>

fun py_type :: "json \<Rightarrow> string" where
  "py_type JNull = ''NoneType''"
| "py_type (JBool b) = ''bool''"
| "py_type (JInt n) = ''int''"
| "py_type (JFloat f) = ''float''"
| "py_type (JStr s) = ''str''"
| "py_type (JArr xs) = ''list''"
| "py_type (JObj kvs) = ''dict''"

text \<open>Truth value testing, as \<open>not user_input\<close> applies it.\<close>

fun truthy :: "json \<Rightarrow> bool" where
  "truthy JNull = False"
| "truthy (JBool b) = b"
| "truthy (JInt n) = (n \<noteq> 0)"
| "truthy (JFloat f) = (f \<noteq> Finite 0)"
| "truthy (JStr s) = (s \<noteq> [])"
| "truthy (JArr xs) = (xs \<noteq> [])"
| "truthy (JObj kvs) = (kvs \<noteq> [])"

text \<open>A text between apostrophes, as the messages of the interpreter quote a name.\<close>

definition squote :: "string \<Rightarrow> string" where
  "squote s = [CHR 0x27] @ s @ [CHR 0x27]"

text \<open>
  \<open>v.get(key, default)\<close>: defined on a \<open>dict\<close> only; on any other value the attribute
  lookup raises \<open>AttributeError\<close>.
\<close>

definition attribute_error :: "json \<Rightarrow> string \<Rightarrow> exn" where
  "attribute_error v a =
     Exn ''AttributeError'' (squote (py_type v) @ '' object has no attribute '' @ squote a)"

fun py_get :: "json \<Rightarrow> string \<Rightarrow> json \<Rightarrow> exn + json" where
  "py_get (JObj kvs) k d = Inr (case map_of kvs k of None \<Rightarrow> d | Some v \<Rightarrow> v)"
| "py_get v k d = Inl (attribute_error v ''get'')"

text \<open>
  \<open>str.lower()\<close> on the ASCII letters; every other character is left as it is. The two
  keywords the handler searches for are ASCII, and no non-ASCII code point lowercases to
  a string in which they could start or end, so the classification is the source's.
\<close>

definition lower_char :: "char \<Rightarrow> char" where
  "lower_char c =
     (case map_of (zip ''ABCDEFGHIJKLMNOPQRSTUVWXYZ'' ''abcdefghijklmnopqrstuvwxyz'') c of
        Some l \<Rightarrow> l
      | None \<Rightarrow> c)"

definition lower :: "string \<Rightarrow> string" where
  "lower s = map lower_char s"

text \<open>\<open>needle in haystack\<close> on two strings: a contiguous occurrence.\<close>

fun py_in :: "string \<Rightarrow> string \<Rightarrow> bool" where
  "py_in needle [] = (needle = [])"
| "py_in needle (c # cs) = (prefix needle (c # cs) \<or> py_in needle cs)"

subsection \<open>Subscripting the model's reply\<close>

text \<open>
  \<open>v[key]\<close> with a \<open>str\<close> key and \<open>v[0]\<close>, with the exceptions Python raises
  (the wording of the \<open>TypeError\<close> messages is CPython 3.11's). A \<open>dict\<close> made by
  \<open>json.loads\<close> has \<open>str\<close> keys only, so \<open>d[0]\<close> is always a \<open>KeyError\<close>.
  \<open>s[0]\<close> on a \<open>str\<close> is its first character as a \<open>str\<close>; the only use the
  handler makes of it is to subscript it with \<open>'text'\<close>, which raises whatever it is.
\<close>

definition not_subscriptable :: "json \<Rightarrow> exn" where
  "not_subscriptable v =
     Exn ''TypeError'' (squote (py_type v) @ '' object is not subscriptable'')"

fun subscript_key :: "json \<Rightarrow> string \<Rightarrow> exn + json" where
  "subscript_key (JObj kvs) k =
     (case map_of kvs k of
        None \<Rightarrow> Inl (Exn ''KeyError'' (squote k))
      | Some v \<Rightarrow> Inr v)"
| "subscript_key (JArr xs) k =
     Inl (Exn ''TypeError'' ''list indices must be integers or slices, not str'')"
| "subscript_key (JStr s) k =
     Inl (Exn ''TypeError'' (''string indices must be integers, not '' @ squote ''str''))"
| "subscript_key v k = Inl (not_subscriptable v)"

fun subscript_0 :: "json \<Rightarrow> exn + json" where
  "subscript_0 (JArr []) = Inl (Exn ''IndexError'' ''list index out of range'')"
| "subscript_0 (JArr (x # xs)) = Inr x"
| "subscript_0 (JStr []) = Inl (Exn ''IndexError'' ''string index out of range'')"
| "subscript_0 (JStr (c # cs)) = Inr (JStr [c])"
| "subscript_0 (JObj kvs) = Inl (Exn ''KeyError'' ''0'')"
| "subscript_0 v = Inl (not_subscriptable v)"

subsection \<open>Fresh identifiers: \<open>str(uuid.uuid4())\<close>\<close>

text \<open>
  The standard library builds a version-4 UUID from 16 random bytes: it overwrites the
  variant and version bits of the 128-bit number and prints it as 32 hexadecimal digits
  in five groups.
\<close>

definition hex_digit :: "nat \<Rightarrow> char" where
  "hex_digit d = ''0123456789abcdef'' ! (d mod 16)"

definition hex32 :: "128 word \<Rightarrow> string" where
  "hex32 w = map (\<lambda>i. hex_digit (unat (take_bit 4 (drop_bit (4 * (31 - i)) w)))) [0..<32]"

definition uuid4_int :: "128 word \<Rightarrow> 128 word" where
  "uuid4_int w =
     (let a = (w AND NOT (push_bit 48 0xc000)) OR push_bit 48 0x8000
      in (a AND NOT (push_bit 64 0xf000)) OR push_bit 76 4)"

definition uuid_str :: "128 word \<Rightarrow> string" where
  "uuid_str w =
     (let h = hex32 w
      in take 8 h @ ''-'' @ take 4 (drop 8 h) @ ''-'' @ take 4 (drop 12 h) @ ''-''
         @ take 4 (drop 16 h) @ ''-'' @ drop 20 h)"

definition uuid4_str :: "128 word \<Rightarrow> string" where
  "uuid4_str w = uuid_str (uuid4_int w)"

subsection \<open>The environment and the effects\<close>

text \<open>
  What lies outside the Python of the repository. Each service is called at most once
  per request, so a function of the arguments covers every behaviour it can show.
  \<^item> \<open>json_loads\<close>: \<open>json.loads\<close> on a \<open>str\<close>, the parsed value or the decoding error;
  \<^item> \<open>py_repr\<close>: the text an f-string prints for a value that is not a \<open>str\<close>;
  \<^item> \<open>urandom\<close>: the 16 random bytes \<open>uuid.uuid4()\<close> draws;
  \<^item> \<open>timestamp\<close>: \<open>str(int(datetime.now().timestamp() * 1000))\<close>;
  \<^item> \<open>lambda_invoke\<close>: \<open>lambda_client.invoke\<close> on the payload document, followed by
    \<open>json.loads(response['Payload'].read())\<close>;
  \<^item> \<open>bedrock_invoke_model\<close>: \<open>bedrock.invoke_model\<close> on the request document, followed
    by \<open>json.loads(response['body'].read().decode())\<close>;
  \<^item> \<open>sqs_send_message\<close>: the exception that \<open>sqs.send_message\<close> raises on the
    message, if any (queue URL and message attributes are constants);
  \<^item> \<open>dynamodb_put_item\<close>: the exception that
    \<open>dynamodb.Table(TABLE_NAME).put_item(Item=item)\<close> raises on the item, if any.
  An exception is always an instance of \<open>Exception\<close>, the class both handlers catch.
\<close>

record env =
  json_loads :: "string \<Rightarrow> exn + json"
  py_repr :: "json \<Rightarrow> string"
  urandom :: "128 word"
  timestamp :: string
  lambda_invoke :: "json \<Rightarrow> exn + json"
  bedrock_invoke_model :: "json \<Rightarrow> exn + json"
  sqs_send_message :: "json \<Rightarrow> exn option"
  dynamodb_put_item :: "json \<Rightarrow> exn option"

text \<open>
  The effects of a run, in the order they happen: the draw of a fresh identifier, the
  call of a service (with the document sent, whether or not the call then raises), and a
  line printed to the log.
\<close>

datatype effect =
    GenUuid
  | LambdaInvoke json
  | BedrockInvoke json
  | SqsSend json
  | DynamoPut json
  | Print string

text \<open>The calls of the four collaborators among the effects of a run.\<close>

fun is_service_call :: "effect \<Rightarrow> bool" where
  "is_service_call GenUuid = False"
| "is_service_call (Print s) = False"
| "is_service_call c = True"

definition service_calls :: "effect list \<Rightarrow> effect list" where
  "service_calls tr = filter is_service_call tr"

fun is_calc :: "effect \<Rightarrow> bool" where
  "is_calc (LambdaInvoke d) = True"
| "is_calc c = False"

fun is_inference :: "effect \<Rightarrow> bool" where
  "is_inference (BedrockInvoke d) = True"
| "is_inference c = False"

fun is_publish :: "effect \<Rightarrow> bool" where
  "is_publish (SqsSend d) = True"
| "is_publish c = False"

fun is_store :: "effect \<Rightarrow> bool" where
  "is_store (DynamoPut d) = True"
| "is_store c = False"

text \<open>The value an f-string interpolates: a \<open>str\<close> is printed as it is.\<close>

definition py_format :: "env \<Rightarrow> json \<Rightarrow> string" where
  "py_format env v = (case v of JStr s \<Rightarrow> s | _ \<Rightarrow> py_repr env v)"

subsection \<open>\<open>store_conversation\<close>\<close>

definition conversation_item :: "env \<Rightarrow> json \<Rightarrow> json \<Rightarrow> json \<Rightarrow> json" where
  "conversation_item env conversation_id user_input resp =
     JObj [(''conversationId'', conversation_id),
           (''timestamp'', JStr (timestamp env)),
           (''userInput'', user_input),
           (''response'', resp),
           (''type'', JStr ''conversation'')]"

text \<open>
  The whole body is inside \<open>try\<close>; an exception of \<open>put_item\<close> is printed and the
  function returns \<open>None\<close> either way, so it has no result to model.
\<close>

definition store_conversation :: "env \<Rightarrow> json \<Rightarrow> json \<Rightarrow> json \<Rightarrow> effect list" where
  "store_conversation env conversation_id user_input resp =
     (let item = conversation_item env conversation_id user_input resp
      in case dynamodb_put_item env item of
           None \<Rightarrow> [DynamoPut item]
         | Some e \<Rightarrow> [DynamoPut item, Print (''DynamoDB error: '' @ exn_str e)])"

subsection \<open>\<open>enqueue_request\<close>\<close>

definition message_body :: "env \<Rightarrow> string \<Rightarrow> json \<Rightarrow> json" where
  "message_body env prompt conversation_id =
     JObj [(''prompt'', JStr prompt),
           (''conversation_id'', conversation_id),
           (''timestamp'', JStr (timestamp env))]"

definition enqueue_request :: "env \<Rightarrow> string \<Rightarrow> json \<Rightarrow> bool \<times> effect list" where
  "enqueue_request env prompt conversation_id =
     (let m = message_body env prompt conversation_id
      in case sqs_send_message env m of
           None \<Rightarrow> (True, [SqsSend m])
         | Some e \<Rightarrow> (False, [SqsSend m, Print (''SQS error: '' @ exn_str e)]))"

subsection \<open>\<open>invoke_bedrock_with_queue\<close>\<close>

record result =
  status :: string
  response :: json

definition request_body :: "string \<Rightarrow> json" where
  "request_body prompt =
     JObj [(''anthropic_version'', JStr ''bedrock-2023-05-31''),
           (''max_tokens'', JInt 500),
           (''messages'',
            JArr [JObj [(''role'', JStr ''user''),
                        (''content'', JArr [JObj [(''type'', JStr ''text''),
                                                  (''text'', JStr prompt)]])]])]"

definition fallback_message :: string where
  "fallback_message =
     ''Your request has been queued due to high demand. You'll receive a response shortly via our notification system. In the meantime, here's some general guidance: Carbon emissions from electricity usage depend on your region's energy mix and the time of consumption. Consider implementing energy efficiency measures and shifting usage to off-peak hours when possible.''"

text \<open>
  The body of the \<open>try\<close>: the call of the model and the reading of
  \<open>response_body['content'][0]['text']\<close>, each step of which can raise.
\<close>

definition bedrock_try :: "env \<Rightarrow> string \<Rightarrow> exn + result" where
  "bedrock_try env prompt =
     (case bedrock_invoke_model env (request_body prompt) of
        Inl e \<Rightarrow> Inl e
      | Inr response_body \<Rightarrow>
          (case subscript_key response_body ''content'' of
             Inl e \<Rightarrow> Inl e
           | Inr c \<Rightarrow>
               (case subscript_0 c of
                  Inl e \<Rightarrow> Inl e
                | Inr c0 \<Rightarrow>
                    (case subscript_key c0 ''text'' of
                       Inl e \<Rightarrow> Inl e
                     | Inr t \<Rightarrow> Inr \<lparr>status = ''direct'', response = t\<rparr>))))"

definition invoke_bedrock_with_queue ::
  "env \<Rightarrow> string \<Rightarrow> json \<Rightarrow> (exn + result) \<times> effect list" where
  "invoke_bedrock_with_queue env prompt conversation_id =
     (case bedrock_try env prompt of
        Inr r \<Rightarrow> (Inr r, [BedrockInvoke (request_body prompt)])
      | Inl e \<Rightarrow>
          if py_in ''ThrottlingException'' (exn_str e) then
            (case enqueue_request env prompt conversation_id of
               (ok, tr) \<Rightarrow>
                 if ok then
                   (Inr \<lparr>status = ''queued'', response = JStr fallback_message\<rparr>,
                    BedrockInvoke (request_body prompt) # tr)
                 else (Inl e, BedrockInvoke (request_body prompt) # tr))
          else (Inl e, [BedrockInvoke (request_body prompt)]))"

subsection \<open>\<open>invoke_calculation_agent\<close>\<close>

definition invoke_calculation_agent :: "env \<Rightarrow> string \<Rightarrow> (exn + json) \<times> effect list" where
  "invoke_calculation_agent env query =
     (let payload = JObj [(''query'', JStr query)]
      in case lambda_invoke env payload of
           Inr v \<Rightarrow> (Inr v, [LambdaInvoke payload])
         | Inl e \<Rightarrow>
             (Inl e, [LambdaInvoke payload,
                      Print (''Calculation agent invocation error: '' @ exn_str e)]))"

subsection \<open>\<open>lambda_handler\<close>\<close>

text \<open>
  A reply of the handler. \<open>body\<close> is the document the handler gives to \<open>json.dumps\<close>,
  which serialises every value met here without raising.
\<close>

record reply =
  statusCode :: int
  headers :: "(string \<times> string) list"
  body :: json

definition reply_400 :: reply where
  "reply_400 =
     \<lparr>statusCode = 400,
      headers = [(''Content-Type'', ''application/json'')],
      body = JObj [(''error'', JStr ''Input is required'')]\<rparr>"

definition reply_200 :: "result \<Rightarrow> json \<Rightarrow> reply" where
  "reply_200 r conversation_id =
     \<lparr>statusCode = 200,
      headers = [(''Content-Type'', ''application/json''),
                 (''Access-Control-Allow-Origin'', ''*'')],
      body = JObj [(''response'', response r),
                   (''conversationId'', conversation_id),
                   (''status'', JStr (status r))]\<rparr>"

definition reply_500 :: "exn \<Rightarrow> reply" where
  "reply_500 e =
     \<lparr>statusCode = 500,
      headers = [(''Content-Type'', ''application/json'')],
      body = JObj [(''error'', JStr (exn_str e))]\<rparr>"

text \<open>
  Line 112, \<open>json.loads(event.get('body', '{}'))\<close>. The event is whatever document the
  platform delivers; \<open>json.loads\<close> on a value that is not a \<open>str\<close> raises \<open>TypeError\<close>.
\<close>

definition loads_value :: "env \<Rightarrow> json \<Rightarrow> exn + json" where
  "loads_value env v =
     (case v of
        JStr s \<Rightarrow> json_loads env s
      | _ \<Rightarrow> Inl (Exn ''TypeError''
                 (''the JSON object must be str, bytes or bytearray, not '' @ py_type v)))"

definition parsed_body :: "env \<Rightarrow> json \<Rightarrow> exn + json" where
  "parsed_body env event =
     (case py_get event ''body'' (JStr ''{}'') of
        Inl e \<Rightarrow> Inl e
      | Inr b \<Rightarrow> loads_value env b)"

text \<open>Lines 124 to 129: the keyword test and the prompt of each branch.\<close>

definition mentions_carbon :: "string \<Rightarrow> bool" where
  "mentions_carbon user_input =
     (py_in ''carbon'' (lower user_input) \<or> py_in ''emission'' (lower user_input))"

definition explain_prompt :: "env \<Rightarrow> json \<Rightarrow> string" where
  "explain_prompt env calc_results =
     ''Explain these carbon emission calculation results briefly and clearly: ''
     @ py_format env calc_results"

definition guidance_prompt :: "string \<Rightarrow> string" where
  "guidance_prompt user_input =
     ''Provide general guidance about carbon emissions for '' @ user_input
     @ ''. Keep it brief.''"

definition compose_prompt :: "env \<Rightarrow> string \<Rightarrow> string \<times> effect list" where
  "compose_prompt env user_input =
     (if mentions_carbon user_input then
        (case invoke_calculation_agent env user_input of
           (Inr calc_results, tr) \<Rightarrow> (explain_prompt env calc_results, tr)
         | (Inl e, tr) \<Rightarrow> (guidance_prompt user_input, tr))
      else (user_input, []))"

text \<open>
  Lines 123 to 151, for an input that is a \<open>str\<close>: the prompt, the inference, the
  write of the conversation and the reply. The effects so far are \<open>tr0\<close>.
\<close>

definition process_query ::
  "env \<Rightarrow> string \<Rightarrow> json \<Rightarrow> effect list \<Rightarrow> (exn + reply) \<times> effect list" where
  "process_query env user_input conversation_id tr0 =
     (case compose_prompt env user_input of
        (prompt, tr1) \<Rightarrow>
          (case invoke_bedrock_with_queue env prompt conversation_id of
             (Inl e, tr2) \<Rightarrow> (Inl e, tr0 @ tr1 @ tr2)
           | (Inr r, tr2) \<Rightarrow>
               (let tr3 = (if status r = ''direct''
                           then store_conversation env conversation_id (JStr user_input)
                                  (response r)
                           else [])
                in (Inr (reply_200 r conversation_id), tr0 @ tr1 @ tr2 @ tr3))))"

text \<open>
  The body of the outer \<open>try\<close>. The default of the second \<open>get\<close> is an argument, so
  \<open>uuid.uuid4()\<close> is evaluated before the lookup, whether or not the key is there. An
  input that passes the truth test and is not a \<open>str\<close> has no \<open>lower\<close> method, and
  the keyword test raises \<open>AttributeError\<close>.
\<close>

definition handler_try :: "env \<Rightarrow> json \<Rightarrow> (exn + reply) \<times> effect list" where
  "handler_try env event =
     (case parsed_body env event of
        Inl e \<Rightarrow> (Inl e, [])
      | Inr b \<Rightarrow>
          (case py_get b ''input'' (JStr []) of
             Inl e \<Rightarrow> (Inl e, [])
           | Inr user_input \<Rightarrow>
               (case py_get b ''conversationId'' (JStr (uuid4_str (urandom env))) of
                  Inl e \<Rightarrow> (Inl e, [])
                | Inr conversation_id \<Rightarrow>
                    if \<not> truthy user_input then (Inr reply_400, [GenUuid])
                    else
                      (case user_input of
                         JStr s \<Rightarrow> process_query env s conversation_id [GenUuid]
                       | _ \<Rightarrow> (Inl (attribute_error user_input ''lower''), [GenUuid])))))"

text \<open>The handler: every exception of the body becomes the reply 500.\<close>

definition lambda_handler :: "env \<Rightarrow> json \<Rightarrow> reply \<times> effect list" where
  "lambda_handler env event =
     (case handler_try env event of
        (Inr r, tr) \<Rightarrow> (r, tr)
      | (Inl e, tr) \<Rightarrow> (reply_500 e, tr))"

subsection \<open>Notions the statements use\<close>

text \<open>A field of a document that is an object.\<close>

fun obj_field :: "json \<Rightarrow> string \<Rightarrow> json option" where
  "obj_field (JObj kvs) k = map_of kvs k"
| "obj_field v k = None"

text \<open>Line 114: the identifier of the conversation, for a parsed body with fields \<open>kvs\<close>.\<close>

definition conversation_id_of :: "env \<Rightarrow> (string \<times> json) list \<Rightarrow> json" where
  "conversation_id_of env kvs =
     (case map_of kvs ''conversationId'' of
        None \<Rightarrow> JStr (uuid4_str (urandom env))
      | Some v \<Rightarrow> v)"

text \<open>The prompt the handler gives to the inference for the input \<open>user_input\<close>.\<close>

definition handler_prompt :: "env \<Rightarrow> string \<Rightarrow> string" where
  "handler_prompt env user_input = fst (compose_prompt env user_input)"

subsection \<open>A concrete environment and concrete events\<close>

text \<open>
  An environment in which every service answers, on which the theorems are run: a
  parser that knows the bodies below, a calculation that returns \<open>{"co2_kg": 4.2}\<close>
  and a model that answers \<open>Hi there\<close>.
\<close>

definition demo_loads :: "string \<Rightarrow> exn + json" where
  \<open>demo_loads s =
     (case map_of
        [(''{}'', JObj []),
         (''{"input": "Hello"}'', JObj [(''input'', JStr ''Hello'')]),
         (''{"input": ""}'', JObj [(''input'', JStr [])]),
         (''{"input": "My Carbon footprint"}'',
          JObj [(''input'', JStr ''My Carbon footprint'')]),
         (''{"input": "Hello", "conversationId": ""}'',
          JObj [(''input'', JStr ''Hello''), (''conversationId'', JStr [])]),
         (''{"input": "Hello", "conversationId": "c-42"}'',
          JObj [(''input'', JStr ''Hello''), (''conversationId'', JStr ''c-42'')])] s of
        Some v \<Rightarrow> Inr v
      | None \<Rightarrow> Inl (Exn ''JSONDecodeError'' ''Expecting value: line 1 column 1 (char 0)''))\<close>

definition demo_env :: env where
  "demo_env =
     \<lparr>json_loads = demo_loads,
      py_repr = (\<lambda>v. ''{'co2_kg': 4.2}''),
      urandom = 0x0123456789abcdef0123456789abcdef,
      timestamp = ''1730678400000'',
      lambda_invoke = (\<lambda>p. Inr (JObj [(''co2_kg'', JFloat (Finite (21 / 5)))])),
      bedrock_invoke_model =
        (\<lambda>r. Inr (JObj [(''content'',
                            JArr [JObj [(''type'', JStr ''text''),
                                        (''text'', JStr ''Hi there'')]])])),
      sqs_send_message = (\<lambda>m. None),
      dynamodb_put_item = (\<lambda>i. None)\<rparr>"

definition throttling_error :: exn where
  "throttling_error =
     Exn ''ClientError''
       ''An error occurred (ThrottlingException) when calling the InvokeModel operation: Too many requests''"

definition access_denied_error :: exn where
  "access_denied_error =
     Exn ''ClientError''
       ''An error occurred (AccessDeniedException) when calling the InvokeModel operation''"

definition service_error :: exn where
  "service_error = Exn ''EndpointConnectionError'' ''Could not connect to the endpoint URL''"

definition demo_event :: "string \<Rightarrow> json" where
  "demo_event b = JObj [(''body'', JStr b)]"

section \<open>Properties\<close>

subsection \<open>Auxiliary facts\<close>

lemmas demo_defs = demo_env_def demo_loads_def demo_event_def

lemmas run_defs =
  lambda_handler_def handler_try_def parsed_body_def loads_value_def process_query_def
  compose_prompt_def invoke_calculation_agent_def invoke_bedrock_with_queue_def
  bedrock_try_def enqueue_request_def store_conversation_def mentions_carbon_def
  lower_def lower_char_def

text \<open>The search of the model is the contiguous-occurrence relation of the library.\<close>

lemma py_in_sublist: "py_in needle haystack = sublist needle haystack"
  by (induction haystack) (auto simp: sublist_Cons_right)

lemma length_uuid4_str: "length (uuid4_str w) = 36"
  by (simp add: uuid4_str_def uuid_str_def hex32_def Let_def)

text \<open>The three shapes of a reply.\<close>

lemma process_query_cases:
  "(\<exists>e tr. process_query env s c tr0 = (Inl e, tr)) \<or>
   (\<exists>r tr. process_query env s c tr0 = (Inr (reply_200 r c), tr))"
  by (auto simp: process_query_def Let_def split: prod.splits sum.splits)

lemma handler_try_cases:
  "(\<exists>e tr. handler_try env ev = (Inl e, tr)) \<or>
   handler_try env ev = (Inr reply_400, [GenUuid]) \<or>
   (\<exists>r c tr. handler_try env ev = (Inr (reply_200 r c), tr))"
  using process_query_cases
  by (simp add: handler_try_def split: sum.splits json.splits) blast

lemma lambda_handler_cases:
  "(\<exists>e tr. lambda_handler env ev = (reply_500 e, tr)) \<or>
   lambda_handler env ev = (reply_400, [GenUuid]) \<or>
   (\<exists>r c tr. lambda_handler env ev = (reply_200 r c, tr))"
proof -
  consider (err) e tr where "handler_try env ev = (Inl e, tr)"
    | (bad) "handler_try env ev = (Inr reply_400, [GenUuid])"
    | (ok) r c tr where "handler_try env ev = (Inr (reply_200 r c), tr)"
    using handler_try_cases [of env ev] by blast
  then show ?thesis
  proof cases
    case err
    then show ?thesis by (simp add: lambda_handler_def; blast)
  next
    case bad
    then show ?thesis by (simp add: lambda_handler_def; blast)
  next
    case ok
    then show ?thesis by (simp add: lambda_handler_def; blast)
  qed
qed

subsection \<open>The cross-origin header\<close>

text \<open>
  Claim C8. For every environment and every event, the reply carries the header
  \<open>Access-Control-Allow-Origin: *\<close> exactly when its status code is 200; the replies
  400 and 500 have no header of that name at all.
\<close>

theorem cors_header_iff_success:
  "((''Access-Control-Allow-Origin'', ''*'') \<in> set (headers (fst (lambda_handler env event))))
     = (statusCode (fst (lambda_handler env event)) = 200)
   \<and> map_of (headers (fst (lambda_handler env event))) ''Access-Control-Allow-Origin''
     = (if statusCode (fst (lambda_handler env event)) = 200 then Some ''*'' else None)"
  using lambda_handler_cases [of env event]
  by (auto simp: reply_200_def reply_400_def reply_500_def)

theorem cors_header_iff_success_witness:
  \<open>(''Access-Control-Allow-Origin'', ''*'')
      \<in> set (headers (fst (lambda_handler demo_env (demo_event ''{"input": "Hello"}''))))
   \<and> statusCode (fst (lambda_handler demo_env (demo_event ''{"input": "Hello"}''))) = 200
   \<and> map_of (headers (fst (lambda_handler demo_env (demo_event ''{"input": ""}''))))
        ''Access-Control-Allow-Origin'' = None
   \<and> statusCode (fst (lambda_handler demo_env (demo_event ''{"input": ""}''))) = 400
   \<and> map_of (headers (fst (lambda_handler demo_env (demo_event ''nonsense''))))
        ''Access-Control-Allow-Origin'' = None
   \<and> statusCode (fst (lambda_handler demo_env (demo_event ''nonsense''))) = 500\<close>
proof -
  have a: \<open>statusCode (fst (lambda_handler demo_env (demo_event ''{"input": "Hello"}''))) = 200\<close>
    by (simp add: run_defs demo_defs reply_200_def)
  have b: \<open>statusCode (fst (lambda_handler demo_env (demo_event ''{"input": ""}''))) = 400\<close>
    by (simp add: run_defs demo_defs reply_400_def)
  have c: \<open>statusCode (fst (lambda_handler demo_env (demo_event ''nonsense''))) = 500\<close>
    by (simp add: run_defs demo_defs reply_500_def)
  show ?thesis
    using a b c
      cors_header_iff_success [of demo_env \<open>demo_event ''{"input": "Hello"}''\<close>]
      cors_header_iff_success [of demo_env \<open>demo_event ''{"input": ""}''\<close>]
      cors_header_iff_success [of demo_env \<open>demo_event ''nonsense''\<close>]
    by simp
qed

subsection \<open>The handler on a parsed body\<close>

lemma handler_try_text:
  assumes "parsed_body env ev = Inr (JObj kvs)"
    and "map_of kvs ''input'' = Some (JStr s)" and "s \<noteq> []"
  shows "handler_try env ev = process_query env s (conversation_id_of env kvs) [GenUuid]"
  using assms by (simp add: handler_try_def conversation_id_of_def split: option.splits)

lemma handler_try_falsy:
  assumes "parsed_body env ev = Inr (JObj kvs)"
    and "map_of kvs ''input'' = None \<or> (\<exists>v. map_of kvs ''input'' = Some v \<and> \<not> truthy v)"
  shows "handler_try env ev = (Inr reply_400, [GenUuid])"
  using assms by (auto simp: handler_try_def)

lemma handler_try_unparsed:
  assumes "parsed_body env ev = Inl e"
  shows "handler_try env ev = (Inl e, [])"
  using assms by (simp add: handler_try_def)

lemma status_codes [simp]:
  "statusCode reply_400 = 400" "statusCode (reply_500 e) = 500" "statusCode (reply_200 r c) = 200"
  by (simp_all add: reply_400_def reply_500_def reply_200_def)

subsection \<open>Validation of the input\<close>

text \<open>
  Claim C5. When the parsed body is an object whose \<open>input\<close> is absent or is a value
  Python counts as false (the empty string among them), the handler returns the reply 400
  with the message \<open>Input is required\<close>, and the run calls no collaborator: the only
  effect is the draw of the identifier on line 114.
\<close>

theorem missing_input_is_rejected:
  assumes "parsed_body env event = Inr (JObj kvs)"
    and "map_of kvs ''input'' = None \<or> (\<exists>v. map_of kvs ''input'' = Some v \<and> \<not> truthy v)"
  shows "lambda_handler env event = (reply_400, [GenUuid])
         \<and> statusCode (fst (lambda_handler env event)) = 400
         \<and> obj_field (body (fst (lambda_handler env event))) ''error''
             = Some (JStr ''Input is required'')
         \<and> service_calls (snd (lambda_handler env event)) = []"
  using handler_try_falsy [OF assms]
  by (simp add: lambda_handler_def service_calls_def reply_400_def)

theorem missing_input_is_rejected_witness:
  \<open>parsed_body demo_env (JObj []) = Inr (JObj [])
   \<and> lambda_handler demo_env (JObj []) = (reply_400, [GenUuid])
   \<and> service_calls (snd (lambda_handler demo_env (JObj []))) = []
   \<and> parsed_body demo_env (demo_event ''{"input": ""}'') = Inr (JObj [(''input'', JStr [])])
   \<and> \<not> truthy (JStr [])
   \<and> lambda_handler demo_env (demo_event ''{"input": ""}'') = (reply_400, [GenUuid])
   \<and> service_calls (snd (lambda_handler demo_env (demo_event ''{"input": ""}''))) = []\<close>
proof -
  have a: \<open>parsed_body demo_env (JObj []) = Inr (JObj [])\<close>
    by (simp add: parsed_body_def loads_value_def demo_defs)
  have b: \<open>parsed_body demo_env (demo_event ''{"input": ""}'') = Inr (JObj [(''input'', JStr [])])\<close>
    by (simp add: parsed_body_def loads_value_def demo_defs)
  show ?thesis
    using a b missing_input_is_rejected [OF a] missing_input_is_rejected [OF b]
    by (simp add: service_calls_def)
qed

subsection \<open>The handler always replies\<close>

text \<open>
  Claim C10. For every environment and every event the handler returns a reply whose
  status code is 200, 400 or 500: every exception of the body of the outer \<open>try\<close>
  becomes the reply 500 with the text of the exception. In particular, when the body of
  the event is a text that \<open>json.loads\<close> rejects, the reply is 500 (not 400) and no
  collaborator has been called.
\<close>

theorem handler_always_replies:
  "statusCode (fst (lambda_handler env event)) \<in> {200, 400, 500}
   \<and> (\<forall>e tr. handler_try env event = (Inl e, tr)
         \<longrightarrow> lambda_handler env event = (reply_500 e, tr))
   \<and> (\<forall>b e. py_get event ''body'' (JStr ''{}'') = Inr (JStr b) \<and> json_loads env b = Inl e
         \<longrightarrow> lambda_handler env event = (reply_500 e, [])
             \<and> statusCode (fst (lambda_handler env event)) = 500
             \<and> service_calls (snd (lambda_handler env event)) = [])"
proof -
  have "statusCode (fst (lambda_handler env event)) \<in> {200, 400, 500}"
    using lambda_handler_cases [of env event] by auto
  moreover have "\<forall>e tr. handler_try env event = (Inl e, tr)
         \<longrightarrow> lambda_handler env event = (reply_500 e, tr)"
    by (simp add: lambda_handler_def)
  moreover have "\<forall>b e. py_get event ''body'' (JStr ''{}'') = Inr (JStr b) \<and> json_loads env b = Inl e
         \<longrightarrow> lambda_handler env event = (reply_500 e, [])
             \<and> statusCode (fst (lambda_handler env event)) = 500
             \<and> service_calls (snd (lambda_handler env event)) = []"
    by (simp add: lambda_handler_def handler_try_def parsed_body_def loads_value_def
        service_calls_def)
  ultimately show ?thesis by blast
qed

theorem handler_always_replies_witness:
  \<open>py_get (demo_event ''nonsense'') ''body'' (JStr ''{}'') = Inr (JStr ''nonsense'')
   \<and> json_loads demo_env ''nonsense''
       = Inl (Exn ''JSONDecodeError'' ''Expecting value: line 1 column 1 (char 0)'')
   \<and> lambda_handler demo_env (demo_event ''nonsense'')
       = (reply_500 (Exn ''JSONDecodeError'' ''Expecting value: line 1 column 1 (char 0)''), [])
   \<and> statusCode (fst (lambda_handler demo_env (demo_event ''nonsense''))) = 500\<close>
proof -
  have a: \<open>py_get (demo_event ''nonsense'') ''body'' (JStr ''{}'') = Inr (JStr ''nonsense'')\<close>
    by (simp add: demo_defs)
  have b: \<open>json_loads demo_env ''nonsense''
       = Inl (Exn ''JSONDecodeError'' ''Expecting value: line 1 column 1 (char 0)'')\<close>
    by (simp add: demo_defs)
  show ?thesis
    using a b handler_always_replies [of demo_env \<open>demo_event ''nonsense''\<close>]
    by simp
qed

subsection \<open>The identifier of the conversation in a success reply\<close>

text \<open>What a reply 200 tells about the run that produced it.\<close>

lemma process_query_reply:
  assumes "process_query env s c tr0 = (Inr R, tr)"
  shows "\<exists>r. R = reply_200 r c"
  using assms
  by (auto simp: process_query_def Let_def split: prod.splits sum.splits)

lemma process_query_trace_prefix:
  "\<exists>tr'. snd (process_query env s c tr0) = tr0 @ tr'"
  by (auto simp: process_query_def Let_def split: prod.splits sum.splits)

lemma handler_try_success:
  assumes "handler_try env ev = (Inr R, tr)" and "statusCode R = 200"
  shows "\<exists>kvs s. parsed_body env ev = Inr (JObj kvs) \<and> map_of kvs ''input'' = Some (JStr s)
           \<and> s \<noteq> []"
proof -
  obtain b where b: "parsed_body env ev = Inr b"
    using assms(1) by (cases "parsed_body env ev") (simp_all add: handler_try_def)
  obtain kvs where kvs: "b = JObj kvs"
    using assms(1) b by (cases b) (simp_all add: handler_try_def)
  show ?thesis
  proof (cases "map_of kvs ''input''")
    case None
    then show ?thesis
      using assms b kvs by (simp add: handler_try_def)
  next
    case (Some v)
    then show ?thesis
      using assms b kvs
      by (cases v) (auto simp: handler_try_def split: if_splits)
  qed
qed

lemma success_reply_shape:
  assumes "statusCode (fst (lambda_handler env event)) = 200"
  shows "\<exists>kvs s r tr. parsed_body env event = Inr (JObj kvs)
           \<and> map_of kvs ''input'' = Some (JStr s) \<and> s \<noteq> []
           \<and> lambda_handler env event
               = (reply_200 r (conversation_id_of env kvs), GenUuid # tr)"
proof -
  obtain res tr where h: "handler_try env event = (res, tr)"
    by (cases "handler_try env event")
  obtain R where R: "res = Inr R" and st: "statusCode R = 200"
    using assms h by (cases res) (simp_all add: lambda_handler_def)
  obtain kvs s where p: "parsed_body env event = Inr (JObj kvs)"
    and i: "map_of kvs ''input'' = Some (JStr s)" and s: "s \<noteq> []"
    using handler_try_success [of env event R tr] h R st by blast
  have q: "process_query env s (conversation_id_of env kvs) [GenUuid] = (Inr R, tr)"
    using handler_try_text [OF p i s] h R by simp
  obtain r where r: "R = reply_200 r (conversation_id_of env kvs)"
    using process_query_reply [OF q] by blast
  obtain tr' where g: "tr = GenUuid # tr'"
    using process_query_trace_prefix [of env s "conversation_id_of env kvs" "[GenUuid]"] q
    by auto
  have "lambda_handler env event = (R, tr)"
    using h R by (simp add: lambda_handler_def)
  then show ?thesis
    using p i s r g by blast
qed

text \<open>
  Claim C6. In every reply 200 the field \<open>conversationId\<close> is the value the body
  supplied under that key, unchanged, and when the body has no such key it is the
  identifier generated in this run by \<open>str(uuid.uuid4())\<close>, which is never empty.
\<close>

theorem conversation_id_echoed_or_fresh:
  assumes "statusCode (fst (lambda_handler env event)) = 200"
  shows "\<exists>kvs. parsed_body env event = Inr (JObj kvs)
           \<and> obj_field (body (fst (lambda_handler env event))) ''conversationId''
               = Some (case map_of kvs ''conversationId'' of
                         None \<Rightarrow> JStr (uuid4_str (urandom env))
                       | Some v \<Rightarrow> v)
           \<and> uuid4_str (urandom env) \<noteq> []
           \<and> GenUuid \<in> set (snd (lambda_handler env event))"
proof -
  obtain kvs r tr where p: "parsed_body env event = Inr (JObj kvs)"
    and l: "lambda_handler env event = (reply_200 r (conversation_id_of env kvs), GenUuid # tr)"
    using success_reply_shape [OF assms] by blast
  have f: "obj_field (body (fst (lambda_handler env event))) ''conversationId''
             = Some (conversation_id_of env kvs)"
    by (simp add: l reply_200_def)
  have n: "uuid4_str (urandom env) \<noteq> []"
    using length_uuid4_str [of "urandom env"] by auto
  have g: "GenUuid \<in> set (snd (lambda_handler env event))"
    by (simp add: l)
  show ?thesis
    using p f n g unfolding conversation_id_of_def by blast
qed

theorem conversation_id_echoed_or_fresh_witness:
  \<open>statusCode (fst (lambda_handler demo_env (demo_event ''{"input": "Hello"}''))) = 200
   \<and> obj_field (body (fst (lambda_handler demo_env (demo_event ''{"input": "Hello"}''))))
        ''conversationId'' = Some (JStr ''01234567-89ab-4def-8123-456789abcdef'')
   \<and> statusCode (fst (lambda_handler demo_env
         (demo_event ''{"input": "Hello", "conversationId": "c-42"}''))) = 200
   \<and> obj_field (body (fst (lambda_handler demo_env
         (demo_event ''{"input": "Hello", "conversationId": "c-42"}'')))) ''conversationId''
       = Some (JStr ''c-42'')\<close>
proof -
  have a: \<open>statusCode (fst (lambda_handler demo_env (demo_event ''{"input": "Hello"}''))) = 200\<close>
    by (simp add: run_defs demo_defs reply_200_def)
  have b: \<open>statusCode (fst (lambda_handler demo_env
         (demo_event ''{"input": "Hello", "conversationId": "c-42"}''))) = 200\<close>
    by (simp add: run_defs demo_defs reply_200_def)
  have pa: \<open>parsed_body demo_env (demo_event ''{"input": "Hello"}'')
              = Inr (JObj [(''input'', JStr ''Hello'')])\<close>
    by (simp add: parsed_body_def loads_value_def demo_defs)
  have pb: \<open>parsed_body demo_env (demo_event ''{"input": "Hello", "conversationId": "c-42"}'')
              = Inr (JObj [(''input'', JStr ''Hello''), (''conversationId'', JStr ''c-42'')])\<close>
    by (simp add: parsed_body_def loads_value_def demo_defs)
  have u: "uuid4_str (urandom demo_env) = ''01234567-89ab-4def-8123-456789abcdef''"
    unfolding demo_env_def by code_simp
  show ?thesis
    using a b u conversation_id_echoed_or_fresh [OF a] conversation_id_echoed_or_fresh [OF b]
    by (auto simp: pa pb)
qed

subsection \<open>Result and effects of each function\<close>

text \<open>
  The result and the effects of the handler on a text input, and of the functions it
  calls, one projection at a time.
\<close>

lemma process_query_fst:
  "fst (process_query env s c tr0) =
     (case fst (invoke_bedrock_with_queue env (handler_prompt env s) c) of
        Inl e \<Rightarrow> Inl e
      | Inr r \<Rightarrow> Inr (reply_200 r c))"
  by (simp add: process_query_def handler_prompt_def Let_def split: prod.splits sum.splits)

lemma process_query_snd:
  "snd (process_query env s c tr0) =
     tr0 @ snd (compose_prompt env s)
     @ snd (invoke_bedrock_with_queue env (handler_prompt env s) c)
     @ (case fst (invoke_bedrock_with_queue env (handler_prompt env s) c) of
          Inl e \<Rightarrow> []
        | Inr r \<Rightarrow> if status r = ''direct''
                   then store_conversation env c (JStr s) (response r) else [])"
  by (simp add: process_query_def handler_prompt_def Let_def split: prod.splits sum.splits)

lemma lambda_handler_fst:
  "fst (lambda_handler env ev) =
     (case fst (handler_try env ev) of Inl e \<Rightarrow> reply_500 e | Inr r \<Rightarrow> r)"
  by (simp add: lambda_handler_def split: prod.splits sum.splits)

lemma lambda_handler_snd: "snd (lambda_handler env ev) = snd (handler_try env ev)"
  by (simp add: lambda_handler_def split: prod.splits sum.splits)

lemma handler_text_fst:
  assumes "parsed_body env ev = Inr (JObj kvs)"
    and "map_of kvs ''input'' = Some (JStr s)" and "s \<noteq> []"
  shows "fst (lambda_handler env ev) =
     (case fst (invoke_bedrock_with_queue env (handler_prompt env s)
                  (conversation_id_of env kvs)) of
        Inl e \<Rightarrow> reply_500 e
      | Inr r \<Rightarrow> reply_200 r (conversation_id_of env kvs))"
  by (simp add: lambda_handler_fst handler_try_text [OF assms] process_query_fst
      split: sum.splits)

lemma handler_text_snd:
  assumes "parsed_body env ev = Inr (JObj kvs)"
    and "map_of kvs ''input'' = Some (JStr s)" and "s \<noteq> []"
  shows "snd (lambda_handler env ev) =
     GenUuid # snd (compose_prompt env s)
     @ snd (invoke_bedrock_with_queue env (handler_prompt env s) (conversation_id_of env kvs))
     @ (case fst (invoke_bedrock_with_queue env (handler_prompt env s)
                    (conversation_id_of env kvs)) of
          Inl e \<Rightarrow> []
        | Inr r \<Rightarrow> if status r = ''direct''
                   then store_conversation env (conversation_id_of env kvs) (JStr s)
                          (response r)
                   else [])"
  by (simp add: lambda_handler_snd handler_try_text [OF assms] process_query_snd)

text \<open>The effects of each part.\<close>

lemma compose_prompt_snd:
  "snd (compose_prompt env s) =
     (if mentions_carbon s
      then LambdaInvoke (JObj [(''query'', JStr s)])
           # (case lambda_invoke env (JObj [(''query'', JStr s)]) of
                Inl e \<Rightarrow> [Print (''Calculation agent invocation error: '' @ exn_str e)]
              | Inr v \<Rightarrow> [])
      else [])"
  by (simp add: compose_prompt_def invoke_calculation_agent_def Let_def split: sum.splits)

lemma handler_prompt_eq:
  "handler_prompt env s =
     (if mentions_carbon s
      then (case lambda_invoke env (JObj [(''query'', JStr s)]) of
              Inl e \<Rightarrow> guidance_prompt s
            | Inr v \<Rightarrow> explain_prompt env v)
      else s)"
  by (simp add: handler_prompt_def compose_prompt_def invoke_calculation_agent_def Let_def
      split: sum.splits)

lemma invoke_bedrock_snd:
  "snd (invoke_bedrock_with_queue env p c) =
     BedrockInvoke (request_body p)
     # (case bedrock_try env p of
          Inr r \<Rightarrow> []
        | Inl e \<Rightarrow> if py_in ''ThrottlingException'' (exn_str e)
                   then snd (enqueue_request env p c) else [])"
  by (simp add: invoke_bedrock_with_queue_def split: sum.splits prod.splits)

lemma enqueue_request_snd:
  "snd (enqueue_request env p c) =
     SqsSend (message_body env p c)
     # (case sqs_send_message env (message_body env p c) of
          None \<Rightarrow> []
        | Some e \<Rightarrow> [Print (''SQS error: '' @ exn_str e)])"
  by (simp add: enqueue_request_def Let_def split: option.splits)

lemma enqueue_request_fst:
  "fst (enqueue_request env p c) = (sqs_send_message env (message_body env p c) = None)"
  by (simp add: enqueue_request_def Let_def split: option.splits)

lemma invoke_bedrock_fst:
  "fst (invoke_bedrock_with_queue env p c) =
     (case bedrock_try env p of
        Inr r \<Rightarrow> Inr r
      | Inl e \<Rightarrow>
          if py_in ''ThrottlingException'' (exn_str e)
             \<and> sqs_send_message env (message_body env p c) = None
          then Inr \<lparr>status = ''queued'', response = JStr fallback_message\<rparr>
          else Inl e)"
  by (simp add: invoke_bedrock_with_queue_def enqueue_request_def Let_def
      split: sum.splits prod.splits option.splits)

lemma bedrock_try_status:
  "bedrock_try env p = Inr r \<Longrightarrow> status r = ''direct''"
  by (auto simp: bedrock_try_def split: sum.splits)

lemma store_conversation_eq:
  "store_conversation env c u t =
     DynamoPut (conversation_item env c u t)
     # (case dynamodb_put_item env (conversation_item env c u t) of
          None \<Rightarrow> []
        | Some e \<Rightarrow> [Print (''DynamoDB error: '' @ exn_str e)])"
  by (simp add: store_conversation_def Let_def split: option.splits)

subsection \<open>The fallback to the queue\<close>

text \<open>
  Claim C1. Let the body of the \<open>try\<close> of \<open>invoke_bedrock_with_queue\<close> raise \<open>e\<close>,
  for any prompt and any conversation identifier. If \<open>str(e)\<close> contains
  \<open>ThrottlingException\<close>, exactly one message is published to the queue; when that
  publish succeeds the result is the status \<open>queued\<close> with the fixed fallback message,
  and when it fails the same exception \<open>e\<close> is raised again. If \<open>str(e)\<close> does not
  contain the marker, \<open>e\<close> is raised again and the only effect is the call of the model.
  An exception that leaves the function on a request of the handler becomes the reply 500
  carrying \<open>str(e)\<close>.
\<close>

theorem throttling_falls_back_to_queue:
  assumes "bedrock_try env prompt = Inl e"
  shows "(py_in ''ThrottlingException'' (exn_str e) \<longrightarrow>
            filter is_publish (snd (invoke_bedrock_with_queue env prompt cid))
              = [SqsSend (message_body env prompt cid)]
            \<and> (sqs_send_message env (message_body env prompt cid) = None \<longrightarrow>
                 fst (invoke_bedrock_with_queue env prompt cid)
                   = Inr \<lparr>status = ''queued'', response = JStr fallback_message\<rparr>)
            \<and> (sqs_send_message env (message_body env prompt cid) \<noteq> None \<longrightarrow>
                 fst (invoke_bedrock_with_queue env prompt cid) = Inl e))
         \<and> (\<not> py_in ''ThrottlingException'' (exn_str e) \<longrightarrow>
              invoke_bedrock_with_queue env prompt cid
                = (Inl e, [BedrockInvoke (request_body prompt)]))
         \<and> (\<forall>event kvs s.
              parsed_body env event = Inr (JObj kvs) \<and> map_of kvs ''input'' = Some (JStr s)
              \<and> s \<noteq> [] \<and> prompt = handler_prompt env s \<and> cid = conversation_id_of env kvs
              \<and> fst (invoke_bedrock_with_queue env prompt cid) = Inl e
              \<longrightarrow> fst (lambda_handler env event) = reply_500 e)"
proof -
  have a: "py_in ''ThrottlingException'' (exn_str e) \<longrightarrow>
            filter is_publish (snd (invoke_bedrock_with_queue env prompt cid))
              = [SqsSend (message_body env prompt cid)]"
    using assms by (simp add: invoke_bedrock_snd enqueue_request_snd split: option.splits)
  have b: "py_in ''ThrottlingException'' (exn_str e) \<longrightarrow>
             sqs_send_message env (message_body env prompt cid) = None \<longrightarrow>
                 fst (invoke_bedrock_with_queue env prompt cid)
                   = Inr \<lparr>status = ''queued'', response = JStr fallback_message\<rparr>"
    using assms by (simp add: invoke_bedrock_fst)
  have c: "sqs_send_message env (message_body env prompt cid) \<noteq> None \<longrightarrow>
                 fst (invoke_bedrock_with_queue env prompt cid) = Inl e"
    using assms by (simp add: invoke_bedrock_fst)
  have d: "\<not> py_in ''ThrottlingException'' (exn_str e) \<longrightarrow>
              invoke_bedrock_with_queue env prompt cid
                = (Inl e, [BedrockInvoke (request_body prompt)])"
    using assms by (simp add: invoke_bedrock_with_queue_def)
  have f: "\<forall>event kvs s.
              parsed_body env event = Inr (JObj kvs) \<and> map_of kvs ''input'' = Some (JStr s)
              \<and> s \<noteq> [] \<and> prompt = handler_prompt env s \<and> cid = conversation_id_of env kvs
              \<and> fst (invoke_bedrock_with_queue env prompt cid) = Inl e
              \<longrightarrow> fst (lambda_handler env event) = reply_500 e"
    by (auto simp: handler_text_fst)
  show ?thesis using a b c d f by blast
qed


theorem throttling_falls_back_to_queue_witness:
  \<open>bedrock_try (demo_env\<lparr>bedrock_invoke_model := \<lambda>r. Inl throttling_error\<rparr>) ''Hello''
      = Inl throttling_error
   \<and> py_in ''ThrottlingException'' (exn_str throttling_error)
   \<and> invoke_bedrock_with_queue (demo_env\<lparr>bedrock_invoke_model := \<lambda>r. Inl throttling_error\<rparr>)
        ''Hello'' (JStr ''c-42'')
      = (Inr \<lparr>status = ''queued'', response = JStr fallback_message\<rparr>,
         [BedrockInvoke (request_body ''Hello''),
          SqsSend (JObj [(''prompt'', JStr ''Hello''), (''conversation_id'', JStr ''c-42''),
                         (''timestamp'', JStr ''1730678400000'')])])
   \<and> fst (invoke_bedrock_with_queue
            (demo_env\<lparr>bedrock_invoke_model := \<lambda>r. Inl throttling_error,
                      sqs_send_message := \<lambda>m. Some service_error\<rparr>)
            ''Hello'' (JStr ''c-42''))
      = Inl throttling_error
   \<and> fst (lambda_handler
            (demo_env\<lparr>bedrock_invoke_model := \<lambda>r. Inl throttling_error,
                      sqs_send_message := \<lambda>m. Some service_error\<rparr>)
            (demo_event ''{"input": "Hello", "conversationId": "c-42"}''))
      = reply_500 throttling_error
   \<and> \<not> py_in ''ThrottlingException'' (exn_str access_denied_error)
   \<and> invoke_bedrock_with_queue (demo_env\<lparr>bedrock_invoke_model := \<lambda>r. Inl access_denied_error\<rparr>)
        ''Hello'' (JStr ''c-42'')
      = (Inl access_denied_error, [BedrockInvoke (request_body ''Hello'')])\<close>
proof -
  let ?t = "demo_env\<lparr>bedrock_invoke_model := \<lambda>r. Inl throttling_error\<rparr>"
  let ?q = "demo_env\<lparr>bedrock_invoke_model := \<lambda>r. Inl throttling_error,
                     sqs_send_message := \<lambda>m. Some service_error\<rparr>"
  let ?d = "demo_env\<lparr>bedrock_invoke_model := \<lambda>r. Inl access_denied_error\<rparr>"
  let ?ev = \<open>demo_event ''{"input": "Hello", "conversationId": "c-42"}''\<close>
  let ?kvs = "[(''input'', JStr ''Hello''), (''conversationId'', JStr ''c-42'')]"
  have t: "bedrock_try ?t ''Hello'' = Inl throttling_error"
    by (simp add: bedrock_try_def)
  have q: "bedrock_try ?q ''Hello'' = Inl throttling_error"
    by (simp add: bedrock_try_def)
  have d: "bedrock_try ?d ''Hello'' = Inl access_denied_error"
    by (simp add: bedrock_try_def)
  have m: "py_in ''ThrottlingException'' (exn_str throttling_error)"
    by (simp add: throttling_error_def)
  have n: "\<not> py_in ''ThrottlingException'' (exn_str access_denied_error)"
    by (simp add: access_denied_error_def)
  have p: "parsed_body ?q ?ev = Inr (JObj ?kvs)"
    by (simp add: parsed_body_def loads_value_def demo_defs)
  have h: "handler_prompt ?q ''Hello'' = ''Hello''"
    by (simp add: handler_prompt_def compose_prompt_def mentions_carbon_def lower_def
        lower_char_def)
  have c: "conversation_id_of ?q ?kvs = JStr ''c-42''"
    by (simp add: conversation_id_of_def)
  have ts: "timestamp ?t = ''1730678400000''"
    by (simp add: demo_env_def)
  have st: "sqs_send_message ?t (message_body ?t ''Hello'' (JStr ''c-42'')) = None"
    by (simp add: demo_env_def)
  have tt: "snd (invoke_bedrock_with_queue ?t ''Hello'' (JStr ''c-42''))
      = [BedrockInvoke (request_body ''Hello''),
          SqsSend (JObj [(''prompt'', JStr ''Hello''), (''conversation_id'', JStr ''c-42''),
                         (''timestamp'', JStr ''1730678400000'')])]"
    using m st by (simp add: invoke_bedrock_snd t enqueue_request_snd)
      (simp add: message_body_def ts)
  have sq: "sqs_send_message ?q (message_body ?q ''Hello'' (JStr ''c-42'')) \<noteq> None"
    by simp
  show ?thesis
    using t m n p h c tt st sq
      throttling_falls_back_to_queue [OF t, of "JStr ''c-42''"]
      throttling_falls_back_to_queue [OF q, of "JStr ''c-42''"]
      throttling_falls_back_to_queue [OF d, of "JStr ''c-42''"]
    by (auto simp: prod_eq_iff)
qed

subsection \<open>Writing the conversation\<close>

lemma invoke_bedrock_status:
  assumes "fst (invoke_bedrock_with_queue env p c) = Inr r"
  shows "status r = ''direct'' \<or> status r = ''queued''"
  using assms bedrock_try_status [of env p]
  by (auto simp: invoke_bedrock_fst split: sum.splits if_splits)

lemma filter_store_handler:
  assumes "parsed_body env ev = Inr (JObj kvs)"
    and "map_of kvs ''input'' = Some (JStr s)" and "s \<noteq> []"
  shows "filter is_store (snd (lambda_handler env ev)) =
     (case fst (invoke_bedrock_with_queue env (handler_prompt env s)
                  (conversation_id_of env kvs)) of
        Inl e \<Rightarrow> []
      | Inr r \<Rightarrow> if status r = ''direct''
                 then [DynamoPut (conversation_item env (conversation_id_of env kvs) (JStr s)
                                    (response r))]
                 else [])"
  by (simp add: handler_text_snd [OF assms] compose_prompt_snd invoke_bedrock_snd
      enqueue_request_snd store_conversation_eq split: sum.splits option.splits)

lemma store_in_trace: "(\<exists>d. DynamoPut d \<in> set tr) = (filter is_store tr \<noteq> [])"
proof -
  have "is_store x = (\<exists>d. x = DynamoPut d)" for x
    by (cases x) simp_all
  then show ?thesis
    by (auto simp: filter_empty_conv)
qed

text \<open>
  Claim C2. On a request that reaches the inference (the parsed body is an object with a
  non-empty text as \<open>input\<close>), the run writes to the conversation store exactly when
  the inference returns with status \<open>direct\<close>: then there is one write, of the record
  with the identifier, the time, the original input and the text returned; with status
  \<open>queued\<close> there is none, and these are the only two statuses.
\<close>

theorem conversation_stored_iff_direct:
  assumes "parsed_body env event = Inr (JObj kvs)"
    and "map_of kvs ''input'' = Some (JStr s)" and "s \<noteq> []"
    and "res = fst (invoke_bedrock_with_queue env (handler_prompt env s)
                      (conversation_id_of env kvs))"
  shows "((\<exists>d. DynamoPut d \<in> set (snd (lambda_handler env event)))
            = (\<exists>r. res = Inr r \<and> status r = ''direct''))
         \<and> (\<forall>r. res = Inr r \<and> status r = ''direct'' \<longrightarrow>
               filter is_store (snd (lambda_handler env event))
                 = [DynamoPut (JObj [(''conversationId'', conversation_id_of env kvs),
                                     (''timestamp'', JStr (timestamp env)),
                                     (''userInput'', JStr s),
                                     (''response'', response r),
                                     (''type'', JStr ''conversation'')])])
         \<and> (\<forall>r. res = Inr r \<and> status r = ''queued'' \<longrightarrow>
               filter is_store (snd (lambda_handler env event)) = [])
         \<and> (\<forall>r. res = Inr r \<longrightarrow> status r = ''direct'' \<or> status r = ''queued'')"
proof -
  note f = filter_store_handler [OF assms(1-3), folded assms(4)]
  have a: "(\<exists>d. DynamoPut d \<in> set (snd (lambda_handler env event)))
            = (\<exists>r. res = Inr r \<and> status r = ''direct'')"
    by (auto simp: store_in_trace f split: sum.splits)
  have b: "\<forall>r. res = Inr r \<and> status r = ''direct'' \<longrightarrow>
               filter is_store (snd (lambda_handler env event))
                 = [DynamoPut (JObj [(''conversationId'', conversation_id_of env kvs),
                                     (''timestamp'', JStr (timestamp env)),
                                     (''userInput'', JStr s),
                                     (''response'', response r),
                                     (''type'', JStr ''conversation'')])]"
    by (auto simp: f conversation_item_def)
  have c: "\<forall>r. res = Inr r \<and> status r = ''queued'' \<longrightarrow>
               filter is_store (snd (lambda_handler env event)) = []"
    by (auto simp: f)
  have d: "\<forall>r. res = Inr r \<longrightarrow> status r = ''direct'' \<or> status r = ''queued''"
    using invoke_bedrock_status assms(4) by metis
  show ?thesis using a b c d by blast
qed

theorem conversation_stored_iff_direct_witness:
  \<open>fst (invoke_bedrock_with_queue demo_env ''Hello'' (JStr ''c-42''))
      = Inr \<lparr>status = ''direct'', response = JStr ''Hi there''\<rparr>
   \<and> filter is_store (snd (lambda_handler demo_env
         (demo_event ''{"input": "Hello", "conversationId": "c-42"}'')))
      = [DynamoPut (JObj [(''conversationId'', JStr ''c-42''),
                          (''timestamp'', JStr ''1730678400000''),
                          (''userInput'', JStr ''Hello''),
                          (''response'', JStr ''Hi there''),
                          (''type'', JStr ''conversation'')])]
   \<and> fst (invoke_bedrock_with_queue
            (demo_env\<lparr>bedrock_invoke_model := \<lambda>r. Inl throttling_error\<rparr>)
            ''Hello'' (JStr ''c-42''))
      = Inr \<lparr>status = ''queued'', response = JStr fallback_message\<rparr>
   \<and> filter is_store (snd (lambda_handler
         (demo_env\<lparr>bedrock_invoke_model := \<lambda>r. Inl throttling_error\<rparr>)
         (demo_event ''{"input": "Hello", "conversationId": "c-42"}''))) = []\<close>
proof -
  let ?t = "demo_env\<lparr>bedrock_invoke_model := \<lambda>r. Inl throttling_error\<rparr>"
  let ?ev = \<open>demo_event ''{"input": "Hello", "conversationId": "c-42"}''\<close>
  let ?kvs = "[(''input'', JStr ''Hello''), (''conversationId'', JStr ''c-42'')]"
  have p: "parsed_body demo_env ?ev = Inr (JObj ?kvs)"
    by (simp add: parsed_body_def loads_value_def demo_defs)
  have pt: "parsed_body ?t ?ev = Inr (JObj ?kvs)"
    by (simp add: parsed_body_def loads_value_def demo_defs)
  have i: "map_of ?kvs ''input'' = Some (JStr ''Hello'')" and n: "''Hello'' \<noteq> []"
    by simp_all
  have h: "handler_prompt env ''Hello'' = ''Hello''" for env
    by (simp add: handler_prompt_def compose_prompt_def mentions_carbon_def lower_def
        lower_char_def)
  have c: "conversation_id_of env ?kvs = JStr ''c-42''" for env
    by (simp add: conversation_id_of_def)
  have r: "fst (invoke_bedrock_with_queue demo_env ''Hello'' (JStr ''c-42''))
      = Inr \<lparr>status = ''direct'', response = JStr ''Hi there''\<rparr>"
    by (simp add: invoke_bedrock_fst bedrock_try_def demo_env_def)
  have rt: "fst (invoke_bedrock_with_queue ?t ''Hello'' (JStr ''c-42''))
      = Inr \<lparr>status = ''queued'', response = JStr fallback_message\<rparr>"
    by (simp add: invoke_bedrock_fst bedrock_try_def throttling_error_def)
      (simp add: demo_env_def)
  have ts: "timestamp demo_env = ''1730678400000''"
    by (simp add: demo_env_def)
  show ?thesis
    using r rt ts
      conversation_stored_iff_direct [OF p i n refl]
      conversation_stored_iff_direct [OF pt i n refl]
    by (simp add: h c)
qed


subsection \<open>The keyword test\<close>

text \<open>The calls of the services in a run on a text input, in order.\<close>


lemma service_calls_handler:
  assumes "parsed_body env ev = Inr (JObj kvs)"
    and "map_of kvs ''input'' = Some (JStr s)" and "s \<noteq> []"
  shows "\<exists>rest. service_calls (snd (lambda_handler env ev)) =
     (if mentions_carbon s then [LambdaInvoke (JObj [(''query'', JStr s)])] else [])
     @ BedrockInvoke (request_body (handler_prompt env s)) # rest
     \<and> filter is_calc rest = [] \<and> filter is_inference rest = []"
  by (simp add: service_calls_def handler_text_snd [OF assms] compose_prompt_snd
      invoke_bedrock_snd enqueue_request_snd store_conversation_eq
      split: sum.splits option.splits)

lemma filter_calc_handler:
  assumes "parsed_body env ev = Inr (JObj kvs)"
    and "map_of kvs ''input'' = Some (JStr s)" and "s \<noteq> []"
  shows "filter is_calc (snd (lambda_handler env ev)) =
     (if mentions_carbon s then [LambdaInvoke (JObj [(''query'', JStr s)])] else [])"
  by (simp add: handler_text_snd [OF assms] compose_prompt_snd
      invoke_bedrock_snd enqueue_request_snd store_conversation_eq
      split: sum.splits option.splits)

lemma filter_inference_handler:
  assumes "parsed_body env ev = Inr (JObj kvs)"
    and "map_of kvs ''input'' = Some (JStr s)" and "s \<noteq> []"
  shows "filter is_inference (snd (lambda_handler env ev)) =
     [BedrockInvoke (request_body (handler_prompt env s))]"
  by (simp add: handler_text_snd [OF assms] compose_prompt_snd
      invoke_bedrock_snd enqueue_request_snd store_conversation_eq
      split: sum.splits option.splits)

text \<open>
  Claim C3. On a non-empty text input the calculation service is called exactly when the
  lowercased input contains \<open>carbon\<close> or \<open>emission\<close>: then it is called once, with
  the input as query, and is the first call, followed by the call of the model, whose
  request carries the prompt of lines 127 or 129. Otherwise it is not called and the first
  call is the model's, with a request whose only message has the raw input as its text.
  The model is called once either way. The documents sent are written out in full.
\<close>

theorem calculation_iff_keyword:
  assumes "parsed_body env event = Inr (JObj kvs)"
    and "map_of kvs ''input'' = Some (JStr s)" and "s \<noteq> []"
  shows "mentions_carbon s = (sublist ''carbon'' (lower s) \<or> sublist ''emission'' (lower s))
         \<and> filter is_calc (snd (lambda_handler env event))
             = (if mentions_carbon s then [LambdaInvoke (JObj [(''query'', JStr s)])] else [])
         \<and> length (filter is_inference (snd (lambda_handler env event))) = 1
         \<and> (mentions_carbon s \<longrightarrow>
               take 2 (service_calls (snd (lambda_handler env event)))
                 = [LambdaInvoke (JObj [(''query'', JStr s)]),
                    BedrockInvoke
                      (JObj [(''anthropic_version'', JStr ''bedrock-2023-05-31''),
                       (''max_tokens'', JInt 500),
                       (''messages'',
                        JArr [JObj [(''role'', JStr ''user''),
                                    (''content'',
                                     JArr [JObj [(''type'', JStr ''text''),
                                                 (''text'', JStr (case lambda_invoke env (JObj [(''query'', JStr s)]) of
                                   Inl e \<Rightarrow>
                                     ''Provide general guidance about carbon emissions for ''
                                     @ s @ ''. Keep it brief.''
                                 | Inr v \<Rightarrow>
                                     ''Explain these carbon emission calculation results briefly and clearly: ''
                                     @ (case v of JStr t \<Rightarrow> t | _ \<Rightarrow> py_repr env v)))]])]])])])
         \<and> (\<not> mentions_carbon s \<longrightarrow>
               take 1 (service_calls (snd (lambda_handler env event)))
                 = [BedrockInvoke
                      (JObj [(''anthropic_version'', JStr ''bedrock-2023-05-31''),
                       (''max_tokens'', JInt 500),
                       (''messages'',
                        JArr [JObj [(''role'', JStr ''user''),
                                    (''content'',
                                     JArr [JObj [(''type'', JStr ''text''),
                                                 (''text'', JStr s)]])]])])])"
proof -
  obtain rest where r: "service_calls (snd (lambda_handler env event)) =
     (if mentions_carbon s then [LambdaInvoke (JObj [(''query'', JStr s)])] else [])
     @ BedrockInvoke (request_body (handler_prompt env s)) # rest"
    using service_calls_handler [OF assms] by blast
  have a: "mentions_carbon s = (sublist ''carbon'' (lower s) \<or> sublist ''emission'' (lower s))"
    by (simp add: mentions_carbon_def py_in_sublist)
  have b: "\<not> mentions_carbon s \<Longrightarrow> handler_prompt env s = s"
    by (simp add: handler_prompt_eq)
  have c: "mentions_carbon s \<Longrightarrow> handler_prompt env s =
             (case lambda_invoke env (JObj [(''query'', JStr s)]) of
                Inl e \<Rightarrow> ''Provide general guidance about carbon emissions for ''
                         @ s @ ''. Keep it brief.''
              | Inr v \<Rightarrow>
                  ''Explain these carbon emission calculation results briefly and clearly: ''
                  @ (case v of JStr t \<Rightarrow> t | _ \<Rightarrow> py_repr env v))"
    by (simp add: handler_prompt_eq guidance_prompt_def explain_prompt_def py_format_def
        split: sum.splits)
  have d: "mentions_carbon s \<longrightarrow>
             take 2 (service_calls (snd (lambda_handler env event)))
               = [LambdaInvoke (JObj [(''query'', JStr s)]),
                  BedrockInvoke (request_body (handler_prompt env s))]"
    using r by simp
  have f: "\<not> mentions_carbon s \<longrightarrow>
             take 1 (service_calls (snd (lambda_handler env event)))
               = [BedrockInvoke (request_body s)]"
    using r b by simp
  show ?thesis
    using a d f c
    by (simp add: filter_calc_handler [OF assms] filter_inference_handler [OF assms]
        request_body_def)
qed

theorem calculation_iff_keyword_witness:
  \<open>mentions_carbon ''My Carbon footprint''
   \<and> take 2 (service_calls (snd (lambda_handler demo_env
         (demo_event ''{"input": "My Carbon footprint"}''))))
      = [LambdaInvoke (JObj [(''query'', JStr ''My Carbon footprint'')]),
         BedrockInvoke
           (JObj [(''anthropic_version'', JStr ''bedrock-2023-05-31''),
            (''max_tokens'', JInt 500),
            (''messages'',
             JArr [JObj [(''role'', JStr ''user''),
                         (''content'',
                          JArr [JObj [(''type'', JStr ''text''),
                                      (''text'', JStr (''Explain these carbon emission calculation results briefly and clearly: ''
                                  @ ''{'co2_kg': 4.2}''))]])]])])]
   \<and> \<not> mentions_carbon ''Hello''
   \<and> filter is_calc (snd (lambda_handler demo_env (demo_event ''{"input": "Hello"}''))) = []
   \<and> take 1 (service_calls (snd (lambda_handler demo_env
         (demo_event ''{"input": "Hello"}''))))
      = [BedrockInvoke
           (JObj [(''anthropic_version'', JStr ''bedrock-2023-05-31''),
            (''max_tokens'', JInt 500),
            (''messages'',
             JArr [JObj [(''role'', JStr ''user''),
                         (''content'',
                          JArr [JObj [(''type'', JStr ''text''),
                                      (''text'', JStr ''Hello'')]])]])])]\<close>
proof -
  let ?c = \<open>demo_event ''{"input": "My Carbon footprint"}''\<close>
  let ?h = \<open>demo_event ''{"input": "Hello"}''\<close>
  have pc: "parsed_body demo_env ?c = Inr (JObj [(''input'', JStr ''My Carbon footprint'')])"
    by (simp add: parsed_body_def loads_value_def demo_defs)
  have ph: "parsed_body demo_env ?h = Inr (JObj [(''input'', JStr ''Hello'')])"
    by (simp add: parsed_body_def loads_value_def demo_defs)
  have ic: "map_of [(''input'', JStr ''My Carbon footprint'')] ''input''
              = Some (JStr ''My Carbon footprint'')"
    and ih: "map_of [(''input'', JStr ''Hello'')] ''input'' = Some (JStr ''Hello'')"
    and nc: "''My Carbon footprint'' \<noteq> []" and nh: "''Hello'' \<noteq> []"
    by simp_all
  have mc: "mentions_carbon ''My Carbon footprint''"
    by (simp add: mentions_carbon_def lower_def lower_char_def)
  have mh: "\<not> mentions_carbon ''Hello''"
    by (simp add: mentions_carbon_def lower_def lower_char_def)
  have l: "lambda_invoke demo_env q = Inr (JObj [(''co2_kg'', JFloat (Finite (21 / 5)))])"
    for q by (simp add: demo_env_def)
  have f: "py_repr demo_env v = ''{'co2_kg': 4.2}''" for v
    by (simp add: demo_env_def)
  show ?thesis
    using mc mh
      calculation_iff_keyword [OF pc ic nc]
      calculation_iff_keyword [OF ph ih nh]
    by (simp add: l f)
qed

subsection \<open>Failure of the calculation\<close>

text \<open>The functions that do not read the calculation service.\<close>


lemma parsed_body_lambda_invoke [simp]:
  "parsed_body (env\<lparr>lambda_invoke := f\<rparr>) ev = parsed_body env ev"
  by (simp add: parsed_body_def loads_value_def split: sum.splits json.splits)

lemma conversation_id_of_lambda_invoke [simp]:
  "conversation_id_of (env\<lparr>lambda_invoke := f\<rparr>) kvs = conversation_id_of env kvs"
  by (simp add: conversation_id_of_def split: option.splits)

lemma invoke_bedrock_lambda_invoke [simp]:
  "invoke_bedrock_with_queue (env\<lparr>lambda_invoke := f\<rparr>) p c = invoke_bedrock_with_queue env p c"
  by (simp add: invoke_bedrock_with_queue_def bedrock_try_def enqueue_request_def
      message_body_def split: sum.splits)

text \<open>
  Claim C4. On the calculation path, when the call of the calculation service raises,
  the model is still called exactly once, with a request whose only message has as its
  text the guidance prompt built around the input (the document is written out in full),
  and the reply to the caller does not depend on the exception the calculation raised:
  any other exception in its place gives the same reply.
\<close>

theorem calculation_failure_degrades:
  assumes "parsed_body env event = Inr (JObj kvs)"
    and "map_of kvs ''input'' = Some (JStr s)" and "s \<noteq> []"
    and "mentions_carbon s"
    and "lambda_invoke env (JObj [(''query'', JStr s)]) = Inl e"
  shows "filter is_inference (snd (lambda_handler env event))
           = [BedrockInvoke
                (JObj [(''anthropic_version'', JStr ''bedrock-2023-05-31''),
                 (''max_tokens'', JInt 500),
                 (''messages'',
                  JArr [JObj [(''role'', JStr ''user''),
                              (''content'',
                               JArr [JObj [(''type'', JStr ''text''),
                                           (''text'', JStr (''Provide general guidance about carbon emissions for ''
                                       @ s @ ''. Keep it brief.''))]])]])])]
         \<and> sublist s (''Provide general guidance about carbon emissions for ''
                       @ s @ ''. Keep it brief.'')
         \<and> fst (lambda_handler (env\<lparr>lambda_invoke := \<lambda>q. Inl e'\<rparr>) event)
             = fst (lambda_handler env event)"
proof -
  have p: "handler_prompt env s = guidance_prompt s"
    using assms(4,5) by (simp add: handler_prompt_eq)
  have p': "handler_prompt (env\<lparr>lambda_invoke := \<lambda>q. Inl e'\<rparr>) s = guidance_prompt s"
    using assms(4) by (simp add: handler_prompt_eq)
  have b: "parsed_body (env\<lparr>lambda_invoke := \<lambda>q. Inl e'\<rparr>) event = Inr (JObj kvs)"
    using assms(1) by simp
  have r: "sublist s (''Provide general guidance about carbon emissions for ''
                       @ s @ ''. Keep it brief.'')"
    unfolding sublist_def by blast
  have "fst (lambda_handler (env\<lparr>lambda_invoke := \<lambda>q. Inl e'\<rparr>) event)
             = fst (lambda_handler env event)"
    by (simp add: handler_text_fst [OF assms(1-3)] handler_text_fst [OF b assms(2,3)] p p'
        cong: sum.case_cong)
  then show ?thesis
    using r
    by (simp add: filter_inference_handler [OF assms(1-3)] p guidance_prompt_def
        request_body_def)
qed

theorem calculation_failure_degrades_witness:
  \<open>mentions_carbon ''My Carbon footprint''
   \<and> lambda_invoke (demo_env\<lparr>lambda_invoke := \<lambda>q. Inl service_error\<rparr>)
        (JObj [(''query'', JStr ''My Carbon footprint'')]) = Inl service_error
   \<and> filter is_inference (snd (lambda_handler
         (demo_env\<lparr>lambda_invoke := \<lambda>q. Inl service_error\<rparr>)
         (demo_event ''{"input": "My Carbon footprint"}'')))
      = [BedrockInvoke
           (JObj [(''anthropic_version'', JStr ''bedrock-2023-05-31''),
            (''max_tokens'', JInt 500),
            (''messages'',
             JArr [JObj [(''role'', JStr ''user''),
                         (''content'',
                          JArr [JObj [(''type'', JStr ''text''),
                                      (''text'', JStr ''Provide general guidance about carbon emissions for My Carbon footprint. Keep it brief.'')]])]])])]
   \<and> fst (lambda_handler (demo_env\<lparr>lambda_invoke := \<lambda>q. Inl access_denied_error\<rparr>)
            (demo_event ''{"input": "My Carbon footprint"}''))
      = fst (lambda_handler (demo_env\<lparr>lambda_invoke := \<lambda>q. Inl service_error\<rparr>)
            (demo_event ''{"input": "My Carbon footprint"}''))\<close>
proof -
  let ?env = "demo_env\<lparr>lambda_invoke := \<lambda>q. Inl service_error\<rparr>"
  let ?c = \<open>demo_event ''{"input": "My Carbon footprint"}''\<close>
  have pc: "parsed_body ?env ?c = Inr (JObj [(''input'', JStr ''My Carbon footprint'')])"
    by (simp add: parsed_body_def loads_value_def demo_defs)
  have ic: "map_of [(''input'', JStr ''My Carbon footprint'')] ''input''
              = Some (JStr ''My Carbon footprint'')"
    and nc: "''My Carbon footprint'' \<noteq> []"
    by simp_all
  have mc: "mentions_carbon ''My Carbon footprint''"
    by (simp add: mentions_carbon_def lower_def lower_char_def)
  have l: "lambda_invoke ?env (JObj [(''query'', JStr ''My Carbon footprint'')])
             = Inl service_error"
    by simp
  show ?thesis
    using mc l calculation_failure_degrades [OF pc ic nc mc l, of access_denied_error]
    by simp
qed

subsection \<open>Failure of the write\<close>

text \<open>The functions that do not read the conversation store.\<close>


lemma parsed_body_put_item [simp]:
  "parsed_body (env\<lparr>dynamodb_put_item := f\<rparr>) ev = parsed_body env ev"
  by (simp add: parsed_body_def loads_value_def split: sum.splits json.splits)

lemma conversation_id_of_put_item [simp]:
  "conversation_id_of (env\<lparr>dynamodb_put_item := f\<rparr>) kvs = conversation_id_of env kvs"
  by (simp add: conversation_id_of_def split: option.splits)

lemma handler_prompt_put_item [simp]:
  "handler_prompt (env\<lparr>dynamodb_put_item := f\<rparr>) s = handler_prompt env s"
  by (simp add: handler_prompt_eq explain_prompt_def py_format_def
      split: sum.splits json.splits)

lemma compose_prompt_put_item [simp]:
  "snd (compose_prompt (env\<lparr>dynamodb_put_item := f\<rparr>) s) = snd (compose_prompt env s)"
  by (simp add: compose_prompt_snd)

lemma invoke_bedrock_put_item [simp]:
  "invoke_bedrock_with_queue (env\<lparr>dynamodb_put_item := f\<rparr>) p c
     = invoke_bedrock_with_queue env p c"
  by (simp add: invoke_bedrock_with_queue_def bedrock_try_def enqueue_request_def
      message_body_def split: sum.splits)

lemma conversation_item_put_item [simp]:
  "conversation_item (env\<lparr>dynamodb_put_item := f\<rparr>) c u t = conversation_item env c u t"
  by (simp add: conversation_item_def)

text \<open>
  Claim C7. When the inference returns with status \<open>direct\<close> and the write to the
  conversation store raises, the reply is the one of a run in which the write succeeds:
  status code 200 with the same response text, identifier and status. The run differs
  from that one only by the line printed to the log.
\<close>

theorem persistence_failure_is_absorbed:
  assumes "parsed_body env event = Inr (JObj kvs)"
    and "map_of kvs ''input'' = Some (JStr s)" and "s \<noteq> []"
    and "fst (invoke_bedrock_with_queue env (handler_prompt env s) (conversation_id_of env kvs))
           = Inr r"
    and "status r = ''direct''"
    and "put (conversation_item env (conversation_id_of env kvs) (JStr s) (response r)) = Some e"
  shows "fst (lambda_handler (env\<lparr>dynamodb_put_item := put\<rparr>) event)
           = fst (lambda_handler (env\<lparr>dynamodb_put_item := \<lambda>i. None\<rparr>) event)
         \<and> fst (lambda_handler (env\<lparr>dynamodb_put_item := put\<rparr>) event)
           = \<lparr>statusCode = 200,
              headers = [(''Content-Type'', ''application/json''),
                         (''Access-Control-Allow-Origin'', ''*'')],
              body = JObj [(''response'', response r),
                           (''conversationId'', conversation_id_of env kvs),
                           (''status'', JStr ''direct'')]\<rparr>
         \<and> snd (lambda_handler (env\<lparr>dynamodb_put_item := put\<rparr>) event)
           = snd (lambda_handler (env\<lparr>dynamodb_put_item := \<lambda>i. None\<rparr>) event)
             @ [Print (''DynamoDB error: '' @ exn_str e)]"
proof -
  have b: "parsed_body (env\<lparr>dynamodb_put_item := f\<rparr>) event = Inr (JObj kvs)" for f
    using assms(1) by simp
  have a: "fst (lambda_handler (env\<lparr>dynamodb_put_item := f\<rparr>) event)
             = reply_200 r (conversation_id_of env kvs)" for f
    using assms(4) by (simp add: handler_text_fst [OF b assms(2,3)])
  have c: "snd (lambda_handler (env\<lparr>dynamodb_put_item := put\<rparr>) event)
           = snd (lambda_handler (env\<lparr>dynamodb_put_item := \<lambda>i. None\<rparr>) event)
             @ [Print (''DynamoDB error: '' @ exn_str e)]"
    using assms(4,5,6)
    by (simp add: handler_text_snd [OF b assms(2,3)] store_conversation_eq)
  show ?thesis
    using a c assms(5) by (simp add: reply_200_def)
qed

theorem persistence_failure_is_absorbed_witness:
  \<open>fst (invoke_bedrock_with_queue demo_env ''Hello'' (JStr ''c-42''))
      = Inr \<lparr>status = ''direct'', response = JStr ''Hi there''\<rparr>
   \<and> fst (lambda_handler (demo_env\<lparr>dynamodb_put_item := \<lambda>i. Some service_error\<rparr>)
            (demo_event ''{"input": "Hello", "conversationId": "c-42"}''))
      = \<lparr>statusCode = 200,
         headers = [(''Content-Type'', ''application/json''),
                    (''Access-Control-Allow-Origin'', ''*'')],
         body = JObj [(''response'', JStr ''Hi there''),
                      (''conversationId'', JStr ''c-42''),
                      (''status'', JStr ''direct'')]\<rparr>
   \<and> fst (lambda_handler (demo_env\<lparr>dynamodb_put_item := \<lambda>i. None\<rparr>)
            (demo_event ''{"input": "Hello", "conversationId": "c-42"}''))
      = fst (lambda_handler (demo_env\<lparr>dynamodb_put_item := \<lambda>i. Some service_error\<rparr>)
            (demo_event ''{"input": "Hello", "conversationId": "c-42"}''))\<close>
proof -
  let ?ev = \<open>demo_event ''{"input": "Hello", "conversationId": "c-42"}''\<close>
  let ?kvs = "[(''input'', JStr ''Hello''), (''conversationId'', JStr ''c-42'')]"
  let ?r = "\<lparr>status = ''direct'', response = JStr ''Hi there''\<rparr>"
  have p: "parsed_body demo_env ?ev = Inr (JObj ?kvs)"
    by (simp add: parsed_body_def loads_value_def demo_defs)
  have i: "map_of ?kvs ''input'' = Some (JStr ''Hello'')" and n: "''Hello'' \<noteq> []"
    by simp_all
  have h: "handler_prompt demo_env ''Hello'' = ''Hello''"
    by (simp add: handler_prompt_def compose_prompt_def mentions_carbon_def lower_def
        lower_char_def)
  have c: "conversation_id_of demo_env ?kvs = JStr ''c-42''"
    by (simp add: conversation_id_of_def)
  have r: "fst (invoke_bedrock_with_queue demo_env ''Hello'' (JStr ''c-42'')) = Inr ?r"
    by (simp add: invoke_bedrock_fst bedrock_try_def demo_env_def)
  have r': "fst (invoke_bedrock_with_queue demo_env (handler_prompt demo_env ''Hello'')
                  (conversation_id_of demo_env ?kvs)) = Inr ?r"
    using r by (simp add: h c)
  have s: "status ?r = ''direct''"
    by simp
  have q: "(\<lambda>i. Some service_error)
             (conversation_item demo_env (conversation_id_of demo_env ?kvs) (JStr ''Hello'')
                (response ?r)) = Some service_error"
    by simp
  show ?thesis
    using r persistence_failure_is_absorbed [OF p i n r' s q]
    by (auto simp: c)
qed

subsection \<open>An empty identifier supplied by the caller\<close>

text \<open>The random bytes are read by nothing but the default of line 114.\<close>

lemma parsed_body_urandom [simp]:
  "parsed_body (env\<lparr>urandom := w\<rparr>) ev = parsed_body env ev"
  by (simp add: parsed_body_def loads_value_def split: sum.splits json.splits)

lemma process_query_urandom [simp]:
  "process_query (env\<lparr>urandom := w\<rparr>) s c tr0 = process_query env s c tr0"
  by (simp add: process_query_def compose_prompt_def invoke_calculation_agent_def
      explain_prompt_def py_format_def invoke_bedrock_with_queue_def bedrock_try_def
      enqueue_request_def message_body_def store_conversation_def conversation_item_def
      Let_def
      cong: sum.case_cong prod.case_cong option.case_cong json.case_cong if_cong)

lemma handler_try_supplied:
  assumes "parsed_body env ev = Inr (JObj kvs)" and "map_of kvs ''conversationId'' = Some c"
  shows "handler_try env ev =
     (case map_of kvs ''input'' of
        None \<Rightarrow> (Inr reply_400, [GenUuid])
      | Some user_input \<Rightarrow>
          if \<not> truthy user_input then (Inr reply_400, [GenUuid])
          else (case user_input of
                  JStr s \<Rightarrow> process_query env s c [GenUuid]
                | _ \<Rightarrow> (Inl (attribute_error user_input ''lower''), [GenUuid])))"
  using assms by (simp add: handler_try_def split: option.splits)

text \<open>
  Claim C9, as the code has it. When the body supplies \<open>conversationId\<close> as the empty
  string, every reply 200 returns the empty string as \<open>conversationId\<close>. The identifier
  of line 114 is generated all the same, as the first effect of the run, because the
  default of \<open>get\<close> is evaluated before the lookup; it is then discarded: the reply and
  the effects of the run are the same whatever the random bytes were.
\<close>

theorem empty_conversation_id_is_echoed:
  assumes "parsed_body env event = Inr (JObj kvs)"
    and "map_of kvs ''conversationId'' = Some (JStr [])"
  shows "(statusCode (fst (lambda_handler env event)) = 200 \<longrightarrow>
            obj_field (body (fst (lambda_handler env event))) ''conversationId''
              = Some (JStr []))
         \<and> hd (snd (lambda_handler env event)) = GenUuid
         \<and> GenUuid \<in> set (snd (lambda_handler env event))
         \<and> lambda_handler (env\<lparr>urandom := w\<rparr>) event = lambda_handler env event"
proof -
  have a: "statusCode (fst (lambda_handler env event)) = 200 \<longrightarrow>
            obj_field (body (fst (lambda_handler env event))) ''conversationId''
              = Some (JStr [])"
  proof
    assume "statusCode (fst (lambda_handler env event)) = 200"
    then obtain kvs' r tr where "parsed_body env event = Inr (JObj kvs')"
      and l: "lambda_handler env event
                = (reply_200 r (conversation_id_of env kvs'), GenUuid # tr)"
      using success_reply_shape by blast
    then have "conversation_id_of env kvs' = JStr []"
      using assms by (simp add: conversation_id_of_def)
    then show "obj_field (body (fst (lambda_handler env event))) ''conversationId''
                 = Some (JStr [])"
      by (simp add: l reply_200_def)
  qed
  have p: "parsed_body (env\<lparr>urandom := w\<rparr>) event = Inr (JObj kvs)"
    using assms(1) by simp
  have b: "handler_try (env\<lparr>urandom := w\<rparr>) event = handler_try env event"
    by (simp add: handler_try_supplied [OF assms] handler_try_supplied [OF p assms(2)]
        cong: option.case_cong json.case_cong if_cong)
  have "\<exists>tr'. snd (handler_try env event) = GenUuid # tr'"
    by (simp add: handler_try_supplied [OF assms] process_query_snd
        split: option.splits json.splits)
  then have c: "hd (snd (lambda_handler env event)) = GenUuid"
    and d: "GenUuid \<in> set (snd (lambda_handler env event))"
    by (auto simp: lambda_handler_snd)
  show ?thesis
    using a b c d by (simp add: lambda_handler_def)
qed


text \<open>
  Claim C9 as stated says that no fresh identifier is generated when the key is supplied.
  On the body \<open>{"input": "Hello", "conversationId": ""}\<close> the run starts by
  generating one.
\<close>

theorem fresh_identifier_generated_counterexample:
  \<open>parsed_body demo_env (demo_event ''{"input": "Hello", "conversationId": ""}'')
      = Inr (JObj [(''input'', JStr ''Hello''), (''conversationId'', JStr [])])
   \<and> snd (lambda_handler demo_env (demo_event ''{"input": "Hello", "conversationId": ""}''))
      = [GenUuid,
         BedrockInvoke (request_body ''Hello''),
         DynamoPut (JObj [(''conversationId'', JStr []),
                          (''timestamp'', JStr ''1730678400000''),
                          (''userInput'', JStr ''Hello''),
                          (''response'', JStr ''Hi there''),
                          (''type'', JStr ''conversation'')])]
   \<and> GenUuid \<in> set (snd (lambda_handler demo_env
                             (demo_event ''{"input": "Hello", "conversationId": ""}'')))\<close>
  by (simp add: run_defs demo_defs request_body_def conversation_item_def)

theorem empty_conversation_id_is_echoed_witness:
  \<open>statusCode (fst (lambda_handler demo_env
       (demo_event ''{"input": "Hello", "conversationId": ""}''))) = 200
   \<and> obj_field (body (fst (lambda_handler demo_env
         (demo_event ''{"input": "Hello", "conversationId": ""}'')))) ''conversationId''
       = Some (JStr [])
   \<and> hd (snd (lambda_handler demo_env
         (demo_event ''{"input": "Hello", "conversationId": ""}''))) = GenUuid
   \<and> lambda_handler (demo_env\<lparr>urandom := 7\<rparr>)
         (demo_event ''{"input": "Hello", "conversationId": ""}'')
       = lambda_handler demo_env (demo_event ''{"input": "Hello", "conversationId": ""}'')\<close>
proof -
  let ?ev = \<open>demo_event ''{"input": "Hello", "conversationId": ""}''\<close>
  let ?kvs = "[(''input'', JStr ''Hello''), (''conversationId'', JStr [])]"
  have p: "parsed_body demo_env ?ev = Inr (JObj ?kvs)"
    by (simp add: parsed_body_def loads_value_def demo_defs)
  have c: "map_of ?kvs ''conversationId'' = Some (JStr [])"
    by simp
  have s: "statusCode (fst (lambda_handler demo_env ?ev)) = 200"
    by (simp add: run_defs demo_defs reply_200_def)
  show ?thesis
    using s empty_conversation_id_is_echoed [OF p c, of 7]
    by simp
qed

subsection \<open>Bodies and inputs of another type\<close>

text \<open>
  The contract of the handler is a body that is a JSON object with a text \<open>input\<close>.
  A body that parses to anything else has no \<open>get\<close>, and an input that passes the truth
  test without being a \<open>str\<close> has no \<open>lower\<close>: both end in the reply 500, before any
  service is called.
\<close>

lemma non_object_body_is_server_error:
  assumes "parsed_body env event = Inr b" and "\<forall>kvs. b \<noteq> JObj kvs"
  shows "lambda_handler env event = (reply_500 (attribute_error b ''get''), [])"
  using assms by (cases b) (simp_all add: lambda_handler_def handler_try_def)

lemma non_text_input_is_server_error:
  assumes "parsed_body env event = Inr (JObj kvs)"
    and "map_of kvs ''input'' = Some v" and "truthy v" and "\<forall>s. v \<noteq> JStr s"
  shows "lambda_handler env event = (reply_500 (attribute_error v ''lower''), [GenUuid])"
  using assms by (cases v) (simp_all add: lambda_handler_def handler_try_def)

end
